theory Spec2Isabelle
  imports Main
begin

section \<open>Go types, values and the reflection primitives used by the locator\<close>

text \<open>
  The locator is generic Go code: every exported function has a type parameter \<open>T\<close>.
  In the embedding the type parameter is an explicit first argument, a type descriptor.
  A descriptor is either a concrete (non-interface) type, with its kind, its printed
  name (what \<^verbatim>\<open>%T\<close> and \<^verbatim>\<open>reflect.Type.String\<close> show) and its method set, or an
  interface type, with its name and the methods it requires.
\<close>

datatype kind = KBool | KInt | KString | KPtr | KStruct "kind list"

datatype gotype =
    Concrete kind string "string list"
  | Interface string "string list"

datatype data =
    BoolV bool
  | IntV int
  | StrV string
  | PtrV "nat option"
  | StructV "data list"

text \<open>
  A value of type \<^verbatim>\<open>any\<close> is either the nil interface or a dynamic type together
  with the data. A value of static type \<open>T\<close> is represented by what it becomes when it
  is stored in an \<^verbatim>\<open>any\<close>: for a concrete \<open>T\<close> that is \<open>Boxed T d\<close>, for an interface
  \<open>T\<close> it is the interface value itself, nil included.
\<close>

datatype any = NilValue | Boxed gotype data

fun zeroData :: "kind \<Rightarrow> data" where
  "zeroData KBool = BoolV False"
| "zeroData KInt = IntV 0"
| "zeroData KString = StrV []"
| "zeroData KPtr = PtrV None"
| "zeroData (KStruct ks) = StructV (map zeroData ks)"

text \<open>\<^verbatim>\<open>var zero T\<close>: the zero value of an interface type is the nil interface.\<close>

fun zeroValue :: "gotype \<Rightarrow> any" where
  "zeroValue (Interface n ms) = NilValue"
| "zeroValue (Concrete k n ms) = Boxed (Concrete k n ms) (zeroData k)"

text \<open>
  \<^verbatim>\<open>reflect.TypeOf(i any)\<close> returns the dynamic type of \<open>i\<close>, and nil when \<open>i\<close> is the
  nil interface. A \<^verbatim>\<open>reflect.Type\<close> used as a map key is \<open>gotype option\<close>, \<open>None\<close>
  being nil.
\<close>

fun TypeOf :: "any \<Rightarrow> gotype option" where
  "TypeOf NilValue = None"
| "TypeOf (Boxed D d) = Some D"

fun typeString :: "gotype \<Rightarrow> string" where
  "typeString (Concrete k n ms) = n"
| "typeString (Interface n ms) = n"

text \<open>The verb \<^verbatim>\<open>%T\<close> of package fmt prints the dynamic type, \<^verbatim>\<open><nil>\<close> for nil.\<close>

fun fmtT :: "any \<Rightarrow> string" where
  "fmtT NilValue = ''<nil>''"
| "fmtT (Boxed D d) = typeString D"

fun methodSet :: "gotype \<Rightarrow> string list" where
  "methodSet (Concrete k n ms) = ms"
| "methodSet (Interface n ms) = ms"

fun isInterface :: "gotype \<Rightarrow> bool" where
  "isInterface (Concrete k n ms) = False"
| "isInterface (Interface n ms) = True"

definition implements :: "gotype \<Rightarrow> gotype \<Rightarrow> bool" where
  "implements D I = list_all (\<lambda>m. m \<in> set (methodSet D)) (methodSet I)"

text \<open>
  The type assertion \<^verbatim>\<open>x.(T)\<close> in its one-result form: \<open>None\<close> is the run-time panic.
  For a concrete \<open>T\<close> the dynamic type of \<open>x\<close> must be identical to \<open>T\<close>; for an
  interface \<open>T\<close> the value must be non-nil and its dynamic type must implement \<open>T\<close>.
\<close>

fun typeAssert :: "gotype \<Rightarrow> any \<Rightarrow> any option" where
  "typeAssert T NilValue = None"
| "typeAssert (Concrete k n ms) (Boxed D d) =
     (if D = Concrete k n ms then Some (Boxed D d) else None)"
| "typeAssert (Interface n ms) (Boxed D d) =
     (if implements D (Interface n ms) then Some (Boxed D d) else None)"

text \<open>Static typing: the values the compiler accepts where a \<open>T\<close> is expected.\<close>

fun hasType :: "gotype \<Rightarrow> any \<Rightarrow> bool" where
  "hasType (Interface n ms) NilValue = True"
| "hasType (Concrete k n ms) NilValue = False"
| "hasType (Concrete k n ms) (Boxed D d) = (D = Concrete k n ms)"
| "hasType (Interface n ms) (Boxed D d) =
     (\<not> isInterface D \<and> implements D (Interface n ms))"

section \<open>The service locator\<close>

text \<open>
  \<^verbatim>\<open>type Provider[T any] func() T\<close>. A provider is user code: it may read and change
  the caller's own state (a call counter, the heap it allocates from), here a world
  \<open>'w\<close> that is threaded through every call. A nil function value is \<open>None\<close>.
  Providers of the model do not call back into the locator and do not panic.
\<close>

type_synonym 'w Provider = "('w \<Rightarrow> any \<times> 'w) option"

text \<open>
  \<^verbatim>\<open>lazySingleton[T]\<close>: \<open>ls_once\<close> is the done flag of the \<^verbatim>\<open>sync.Once\<close>. The providers
  map holds a pointer to the struct; the pointer is created by
  \<open>RegisterLazySingleton\<close> and stored under one key only, so the struct is kept inside
  the map entry and \<open>Get\<close> writes the mutated struct back to the entry it was read from.
\<close>

record 'w lazySingleton =
  ls_once :: bool
  ls_instance :: any
  ls_provider :: "'w Provider"

text \<open>
  What the providers map holds, with the dynamic type the type switch of \<open>Get\<close>
  inspects: \<^verbatim>\<open>*lazySingleton[U]\<close> or \<^verbatim>\<open>Provider[U]\<close>.
\<close>

datatype 'w providerEntry =
    LazySingletonPtr gotype "'w lazySingleton"
  | ProviderFunc gotype "'w Provider"

record 'w ServiceLocator =
  instances :: "gotype option \<rightharpoonup> any"
  providers :: "gotype option \<rightharpoonup> 'w providerEntry"

text \<open>
  An \<^verbatim>\<open>error\<close> made by \<^verbatim>\<open>fmt.Errorf\<close> without \<^verbatim>\<open>%w\<close> is an \<^verbatim>\<open>*errors.errorString\<close>:
  all a caller can observe of it is its message. The two panics are the failed type
  assertion and the call of a nil function.
\<close>

datatype failure =
    ErrorString string
  | PanicInterfaceConversion
  | PanicNilFunc

definition New :: "'w ServiceLocator" where
  "New = \<lparr>instances = Map.empty, providers = Map.empty\<rparr>"

definition getTypeKey :: "gotype \<Rightarrow> gotype option" where
  "getTypeKey T = TypeOf (zeroValue T)"

definition RegisterSingleton :: "gotype \<Rightarrow> 'w ServiceLocator \<Rightarrow> any \<Rightarrow> 'w ServiceLocator" where
  "RegisterSingleton T sl inst = sl\<lparr>instances := (instances sl)(getTypeKey T \<mapsto> inst)\<rparr>"

definition RegisterLazySingleton ::
  "gotype \<Rightarrow> 'w ServiceLocator \<Rightarrow> 'w Provider \<Rightarrow> 'w ServiceLocator" where
  "RegisterLazySingleton T sl provider =
     sl\<lparr>providers := (providers sl)(getTypeKey T \<mapsto>
        LazySingletonPtr T
          \<lparr>ls_once = False, ls_instance = zeroValue T, ls_provider = provider\<rparr>)\<rparr>"

definition RegisterFactory ::
  "gotype \<Rightarrow> 'w ServiceLocator \<Rightarrow> 'w Provider \<Rightarrow> 'w ServiceLocator" where
  "RegisterFactory T sl provider =
     sl\<lparr>providers := (providers sl)(getTypeKey T \<mapsto> ProviderFunc T provider)\<rparr>"

text \<open>\<^verbatim>\<open>fmt.Errorf("no provider registered for type %T", v)\<close>\<close>

definition noProviderError :: "any \<Rightarrow> failure" where
  "noProviderError v = ErrorString (''no provider registered for type '' @ fmtT v)"

text \<open>
  \<open>getInstance\<close> returns the result, the struct after the call, the locator after the
  call and the world after the call.
\<close>

definition getInstance ::
  "gotype \<Rightarrow> 'w lazySingleton \<Rightarrow> 'w ServiceLocator \<Rightarrow> 'w \<Rightarrow>
   (failure + any) \<times> 'w lazySingleton \<times> 'w ServiceLocator \<times> 'w" where
  "getInstance T ls sl w =
     (case ls_provider ls of
        None \<Rightarrow> (Inl (noProviderError (ls_instance ls)), ls, sl, w)
      | Some f \<Rightarrow>
          if ls_once ls then (Inr (ls_instance ls), ls, sl, w)
          else
            (let (v, w') = f w;
                 ls' = ls\<lparr>ls_instance := v, ls_once := True\<rparr>;
                 sl' = sl\<lparr>instances := (instances sl)(getTypeKey T \<mapsto> ls_instance ls')\<rparr>
             in (Inr (ls_instance ls'), ls', sl', w')))"

definition Get ::
  "gotype \<Rightarrow> 'w ServiceLocator \<Rightarrow> 'w \<Rightarrow> (failure + any) \<times> 'w ServiceLocator \<times> 'w" where
  "Get T sl w =
     (let typeKey = getTypeKey T in
      case instances sl typeKey of
        Some inst \<Rightarrow>
          (case typeAssert T inst of
             Some v \<Rightarrow> (Inr v, sl, w)
           | None \<Rightarrow> (Inl PanicInterfaceConversion, sl, w))
      | None \<Rightarrow>
          (case providers sl typeKey of
             Some (LazySingletonPtr U ls) \<Rightarrow>
               if U = T then
                 (let (r, ls', sl', w') = getInstance T ls sl w
                  in (r, sl'\<lparr>providers := (providers sl')(typeKey \<mapsto> LazySingletonPtr U ls')\<rparr>, w'))
               else (Inl (noProviderError (zeroValue T)), sl, w)
           | Some (ProviderFunc U p) \<Rightarrow>
               if U = T then
                 (case p of
                    Some f \<Rightarrow> (let (v, w') = f w in (Inr v, sl, w'))
                  | None \<Rightarrow> (Inl PanicNilFunc, sl, w))
               else (Inl (noProviderError (zeroValue T)), sl, w)
           | None \<Rightarrow> (Inl (noProviderError (zeroValue T)), sl, w)))"

text \<open>\<open>n\<close> calls of \<open>Get\<close> for the same type, one after the other.\<close>

fun GetN ::
  "gotype \<Rightarrow> nat \<Rightarrow> 'w ServiceLocator \<Rightarrow> 'w \<Rightarrow> (failure + any) list \<times> 'w ServiceLocator \<times> 'w" where
  "GetN T 0 sl w = ([], sl, w)"
| "GetN T (Suc n) sl w =
     (let (r, sl', w') = Get T sl w;
          (rs, sl'', w'') = GetN T n sl' w'
      in (r # rs, sl'', w''))"

text \<open>
  The locator after the lazy singleton registered for \<open>T\<close> on \<open>sl\<close> has produced \<open>v\<close>:
  the value is in the instances map and in the struct, whose gate has fired.
\<close>

definition materialized ::
  "gotype \<Rightarrow> 'w ServiceLocator \<Rightarrow> ('w \<Rightarrow> any \<times> 'w) \<Rightarrow> any \<Rightarrow> 'w ServiceLocator" where
  "materialized T sl ctor v =
     sl\<lparr>instances := (instances sl)(getTypeKey T \<mapsto> v),
        providers := (providers sl)(getTypeKey T \<mapsto>
          LazySingletonPtr T \<lparr>ls_once = True, ls_instance = v, ls_provider = Some ctor\<rparr>)\<rparr>"

section \<open>Sequences of calls\<close>

text \<open>
  What a client can do with a locator: the three registrations and \<open>Get\<close>, each at
  a type of its choice. \<open>run\<close> performs a list of such calls in order.
\<close>

datatype 'w operation =
    OpRegisterSingleton gotype any
  | OpRegisterLazySingleton gotype "'w Provider"
  | OpRegisterFactory gotype "'w Provider"
  | OpGet gotype

fun opType :: "'w operation \<Rightarrow> gotype" where
  "opType (OpRegisterSingleton T v) = T"
| "opType (OpRegisterLazySingleton T p) = T"
| "opType (OpRegisterFactory T p) = T"
| "opType (OpGet T) = T"

fun isRegisterSingleton :: "'w operation \<Rightarrow> bool" where
  "isRegisterSingleton (OpRegisterSingleton T v) = True"
| "isRegisterSingleton (OpRegisterLazySingleton T p) = False"
| "isRegisterSingleton (OpRegisterFactory T p) = False"
| "isRegisterSingleton (OpGet T) = False"

fun step :: "'w operation \<Rightarrow> 'w ServiceLocator \<times> 'w \<Rightarrow> 'w ServiceLocator \<times> 'w" where
  "step (OpRegisterSingleton T v) (sl, w) = (RegisterSingleton T sl v, w)"
| "step (OpRegisterLazySingleton T p) (sl, w) = (RegisterLazySingleton T sl p, w)"
| "step (OpRegisterFactory T p) (sl, w) = (RegisterFactory T sl p, w)"
| "step (OpGet T) (sl, w) = snd (Get T sl w)"

fun run :: "'w operation list \<Rightarrow> 'w ServiceLocator \<times> 'w \<Rightarrow> 'w ServiceLocator \<times> 'w" where
  "run [] s = s"
| "run (x # xs) s = run xs (step x s)"

text \<open>
  The calls the Go compiler accepts: the instance passed to \<open>RegisterSingleton[T]\<close> is a
  \<open>T\<close>, and a \<open>Provider[T]\<close> returns a \<open>T\<close> whenever it is called.
\<close>

definition wellTypedProvider :: "gotype \<Rightarrow> 'w Provider \<Rightarrow> bool" where
  "wellTypedProvider T p =
     (case p of None \<Rightarrow> True | Some f \<Rightarrow> (\<forall>w. hasType T (fst (f w))))"

fun wellTypedOp :: "'w operation \<Rightarrow> bool" where
  "wellTypedOp (OpRegisterSingleton T v) = hasType T v"
| "wellTypedOp (OpRegisterLazySingleton T p) = wellTypedProvider T p"
| "wellTypedOp (OpRegisterFactory T p) = wellTypedProvider T p"
| "wellTypedOp (OpGet T) = True"

text \<open>
  The invariant behind the unchecked cast of \<open>Get\<close>, as far as it holds: what is
  stored under the key of a non-interface type \<open>C\<close> belongs to \<open>C\<close>. Nothing is said
  about the nil key.
\<close>

definition wellKeyed :: "'w ServiceLocator \<Rightarrow> bool" where
  "wellKeyed sl =
     ((\<forall>C v. instances sl (Some C) = Some v \<longrightarrow> \<not> isInterface C \<and> hasType C v) \<and>
      (\<forall>C U ls. providers sl (Some C) = Some (LazySingletonPtr U ls) \<longrightarrow>
          U = C \<and> wellTypedProvider C (ls_provider ls) \<and>
          (ls_once ls \<longrightarrow> hasType C (ls_instance ls))) \<and>
      (\<forall>C U p. providers sl (Some C) = Some (ProviderFunc U p) \<longrightarrow> U = C))"

section \<open>Types and providers used in the examples\<close>

definition ioReader :: gotype where
  "ioReader = Interface ''io.Reader'' [''Read'']"

definition fmtStringer :: gotype where
  "fmtStringer = Interface ''fmt.Stringer'' [''String'']"

definition errorType :: gotype where
  "errorType = Interface ''error'' [''Error'']"

definition testService :: gotype where
  "testService = Concrete KPtr ''*locator_test.TestService'' []"

definition clock :: gotype where
  "clock = Concrete KPtr ''*main.Clock'' [''String'']"

definition osFile :: gotype where
  "osFile = Concrete KPtr ''*os.File'' [''Read'', ''Write'', ''Close'']"

text \<open>
  The world of the example providers is a heap, a list of allocated objects; an address
  is an index into it. \<^verbatim>\<open>func() *TestService { return &TestService{Name: name} }\<close>
  allocates a new object at the next free address.
\<close>

type_synonym heap = "data list"

definition newTestService :: "string \<Rightarrow> heap \<Rightarrow> any \<times> heap" where
  "newTestService name h =
     (Boxed testService (PtrV (Some (length h))), h @ [StructV [StrV name]])"

text \<open>\<^verbatim>\<open>func() error { return nil }\<close>\<close>

definition nilError :: "heap \<Rightarrow> any \<times> heap" where
  "nilError h = (NilValue, h)"

section \<open>Basic facts\<close>

lemmas example_defs = testService_def clock_def osFile_def errorType_def ioReader_def
  fmtStringer_def newTestService_def nilError_def

lemmas locator_defs = Get_def getInstance_def RegisterSingleton_def RegisterLazySingleton_def
  RegisterFactory_def New_def getTypeKey_def noProviderError_def implements_def

lemma getTypeKey_Concrete: "getTypeKey (Concrete k n ms) = Some (Concrete k n ms)"
  by (simp add: getTypeKey_def)

lemma getTypeKey_Interface: "getTypeKey (Interface n ms) = None"
  by (simp add: getTypeKey_def)

lemma getTypeKey_eq_Some_iff: "getTypeKey T = Some C \<longleftrightarrow> T = C \<and> \<not> isInterface C"
  by (cases T) (auto simp: getTypeKey_def)

lemma Some_eq_getTypeKey_iff: "Some C = getTypeKey T \<longleftrightarrow> T = C \<and> \<not> isInterface C"
  by (cases T) (auto simp: getTypeKey_def)

lemmas getTypeKey_Some_iffs = getTypeKey_eq_Some_iff Some_eq_getTypeKey_iff

text \<open>On the types that are not interfaces the key identifies the type.\<close>

lemma getTypeKey_eq_iff:
  "\<not> isInterface T \<Longrightarrow> getTypeKey U = getTypeKey T \<longleftrightarrow> U = T"
  by (cases T; cases U) (auto simp: getTypeKey_def)

lemma typeAssert_hasType:
  "hasType T v \<Longrightarrow> v \<noteq> NilValue \<Longrightarrow> typeAssert T v = Some v"
  by (cases T; cases v) auto

lemma typeAssert_Some_eq: "typeAssert T v = Some x \<Longrightarrow> x = v"
  by (cases T; cases v) (auto split: if_splits)

subsection \<open>The paths of \<open>Get\<close>\<close>

lemma Get_instance:
  "instances sl (getTypeKey T) = Some v \<Longrightarrow>
   Get T sl w =
     (case typeAssert T v of Some x \<Rightarrow> Inr x | None \<Rightarrow> Inl PanicInterfaceConversion, sl, w)"
  by (simp add: Get_def split: option.splits)

lemma Get_missing:
  "instances sl (getTypeKey T) = None \<Longrightarrow> providers sl (getTypeKey T) = None \<Longrightarrow>
   Get T sl w = (Inl (noProviderError (zeroValue T)), sl, w)"
  by (simp add: Get_def)

lemma Get_factory:
  "instances sl (getTypeKey T) = None \<Longrightarrow>
   providers sl (getTypeKey T) = Some (ProviderFunc T (Some f)) \<Longrightarrow>
   Get T sl w = (Inr (fst (f w)), sl, snd (f w))"
  by (simp add: Get_def split: prod.splits)

lemma Get_lazy_absent:
  "instances sl (getTypeKey T) = None \<Longrightarrow>
   providers sl (getTypeKey T) = Some (LazySingletonPtr T ls) \<Longrightarrow>
   ls_provider ls = None \<Longrightarrow>
   Get T sl w = (Inl (noProviderError (ls_instance ls)), sl, w)"
  by (simp add: Get_def getInstance_def map_upd_triv)

lemma Get_lazy_first:
  "instances sl (getTypeKey T) = None \<Longrightarrow>
   providers sl (getTypeKey T) = Some (LazySingletonPtr T ls) \<Longrightarrow>
   ls_provider ls = Some f \<Longrightarrow> \<not> ls_once ls \<Longrightarrow>
   Get T sl w =
     (Inr (fst (f w)),
      sl\<lparr>instances := (instances sl)(getTypeKey T \<mapsto> fst (f w)),
         providers := (providers sl)(getTypeKey T \<mapsto>
            LazySingletonPtr T (ls\<lparr>ls_instance := fst (f w), ls_once := True\<rparr>))\<rparr>,
      snd (f w))"
  by (cases "f w") (simp add: Get_def getInstance_def Let_def)

text \<open>
  Every call of \<open>Get\<close> either leaves the locator as it was or is the first passage
  through the gate of a lazy singleton registered for the requested type.
\<close>

lemma Get_cases:
  "Get T sl w = (r, sl', w') \<Longrightarrow>
   sl' = sl \<or>
   (\<exists>ls f. instances sl (getTypeKey T) = None \<and>
      providers sl (getTypeKey T) = Some (LazySingletonPtr T ls) \<and>
      ls_provider ls = Some f \<and>
      (ls_once ls \<and> sl' = sl \<or>
       \<not> ls_once ls \<and>
       sl' = sl\<lparr>instances := (instances sl)(getTypeKey T \<mapsto> fst (f w)),
         providers := (providers sl)(getTypeKey T \<mapsto>
            LazySingletonPtr T (ls\<lparr>ls_instance := fst (f w), ls_once := True\<rparr>))\<rparr>))"
  by (auto simp: Get_def getInstance_def Let_def map_upd_triv
           split: option.splits providerEntry.splits if_splits prod.splits)

lemma GetN_instance:
  "instances sl (getTypeKey T) = Some v \<Longrightarrow> typeAssert T v = Some v \<Longrightarrow>
   GetN T n sl w = (replicate n (Inr v), sl, w)"
  by (induction n) (simp_all add: Get_instance)

lemma GetN_error:
  "Get T sl w = (Inl e, sl, w) \<Longrightarrow> GetN T n sl w = (replicate n (Inl e), sl, w)"
  by (induction n) simp_all

lemma Get_lazy_registered:
  assumes "instances sl (getTypeKey T) = None"
  shows "Get T (RegisterLazySingleton T sl (Some ctor)) w =
           (Inr (fst (ctor w)), materialized T sl ctor (fst (ctor w)), snd (ctor w))"
proof -
  let ?sl = "RegisterLazySingleton T sl (Some ctor)"
  let ?ls = "\<lparr>ls_once = False, ls_instance = zeroValue T, ls_provider = Some ctor\<rparr>"
  have i: "instances ?sl (getTypeKey T) = None"
    using assms by (simp add: RegisterLazySingleton_def)
  have p: "providers ?sl (getTypeKey T) = Some (LazySingletonPtr T ?ls)"
    by (simp add: RegisterLazySingleton_def)
  have "ls_provider ?ls = Some ctor" and "\<not> ls_once ?ls"
    by simp_all
  with i p have "Get T ?sl w =
     (Inr (fst (ctor w)),
      ?sl\<lparr>instances := (instances ?sl)(getTypeKey T \<mapsto> fst (ctor w)),
         providers := (providers ?sl)(getTypeKey T \<mapsto>
            LazySingletonPtr T (?ls\<lparr>ls_instance := fst (ctor w), ls_once := True\<rparr>))\<rparr>,
      snd (ctor w))"
    by (rule Get_lazy_first)
  then show ?thesis
    by (simp add: materialized_def RegisterLazySingleton_def)
qed

subsection \<open>What a call leaves alone\<close>

lemma Get_instances_other:
  "getTypeKey T \<noteq> k \<Longrightarrow> instances (fst (snd (Get T sl w))) k = instances sl k"
  using Get_cases [of T sl w "fst (Get T sl w)" "fst (snd (Get T sl w))" "snd (snd (Get T sl w))"]
  by auto

lemma Get_providers_other:
  "getTypeKey T \<noteq> k \<Longrightarrow> providers (fst (snd (Get T sl w))) k = providers sl k"
  using Get_cases [of T sl w "fst (Get T sl w)" "fst (snd (Get T sl w))" "snd (snd (Get T sl w))"]
  by auto

lemma Get_instance_kept:
  "instances sl k = Some v \<Longrightarrow> instances (fst (snd (Get T sl w))) k = Some v"
  using Get_cases [of T sl w "fst (Get T sl w)" "fst (snd (Get T sl w))" "snd (snd (Get T sl w))"]
  by (cases "getTypeKey T = k") auto

lemma step_instance_kept:
  "instances (fst s) k = Some v \<Longrightarrow>
   \<not> (isRegisterSingleton x \<and> getTypeKey (opType x) = k) \<Longrightarrow>
   instances (fst (step x s)) k = Some v"
  by (cases x; cases s)
     (auto simp: RegisterSingleton_def RegisterLazySingleton_def RegisterFactory_def
        Get_instance_kept)

lemma run_instance_kept:
  "instances (fst s) k = Some v \<Longrightarrow>
   list_all (\<lambda>x. \<not> (isRegisterSingleton x \<and> getTypeKey (opType x) = k)) xs \<Longrightarrow>
   instances (fst (run xs s)) k = Some v"
  by (induction xs arbitrary: s) (simp_all add: step_instance_kept)

lemma step_other_key:
  "getTypeKey (opType x) \<noteq> k \<Longrightarrow>
   instances (fst (step x s)) k = instances (fst s) k \<and>
   providers (fst (step x s)) k = providers (fst s) k"
  by (cases x; cases s)
     (auto simp: RegisterSingleton_def RegisterLazySingleton_def RegisterFactory_def
        Get_instances_other Get_providers_other)

lemma run_other_key:
  "list_all (\<lambda>x. getTypeKey (opType x) \<noteq> k) xs \<Longrightarrow>
   instances (fst (run xs s)) k = instances (fst s) k \<and>
   providers (fst (run xs s)) k = providers (fst s) k"
  by (induction xs arbitrary: s) (simp_all add: step_other_key)

subsection \<open>The invariant of the keys of non-interface types\<close>

lemma wellKeyed_instanceD:
  "wellKeyed sl \<Longrightarrow> instances sl (Some C) = Some v \<Longrightarrow> hasType C v"
  unfolding wellKeyed_def by blast

lemma wellKeyed_lazyD:
  "wellKeyed sl \<Longrightarrow> providers sl (Some C) = Some (LazySingletonPtr U ls) \<Longrightarrow>
   wellTypedProvider C (ls_provider ls)"
  unfolding wellKeyed_def by blast

lemma wellKeyed_New: "wellKeyed New"
  by (simp add: wellKeyed_def New_def)

lemma wellKeyed_RegisterSingleton:
  "wellKeyed sl \<Longrightarrow> hasType T v \<Longrightarrow> wellKeyed (RegisterSingleton T sl v)"
  by (auto simp: wellKeyed_def RegisterSingleton_def getTypeKey_Some_iffs)

lemma wellKeyed_RegisterLazySingleton:
  "wellKeyed sl \<Longrightarrow> wellTypedProvider T p \<Longrightarrow> wellKeyed (RegisterLazySingleton T sl p)"
  by (auto simp: wellKeyed_def RegisterLazySingleton_def getTypeKey_Some_iffs)

lemma wellKeyed_RegisterFactory:
  "wellKeyed sl \<Longrightarrow> wellKeyed (RegisterFactory T sl p)"
  by (auto simp: wellKeyed_def RegisterFactory_def getTypeKey_Some_iffs)

lemma wellKeyed_Get:
  assumes "wellKeyed sl"
  shows "wellKeyed (fst (snd (Get T sl w)))"
proof -
  obtain r sl' w' where g: "Get T sl w = (r, sl', w')"
    by (cases "Get T sl w") auto
  from Get_cases [OF g] show ?thesis
  proof (elim disjE exE conjE)
    assume "sl' = sl"
    with g assms show ?thesis by simp
  next
    fix ls f
    assume "ls_once ls" "sl' = sl"
    with g assms show ?thesis by simp
  next
    fix ls f
    assume p: "providers sl (getTypeKey T) = Some (LazySingletonPtr T ls)"
      and f: "ls_provider ls = Some f"
      and sl': "sl' = sl\<lparr>instances := (instances sl)(getTypeKey T \<mapsto> fst (f w)),
         providers := (providers sl)(getTypeKey T \<mapsto>
            LazySingletonPtr T (ls\<lparr>ls_instance := fst (f w), ls_once := True\<rparr>))\<rparr>"
    have wp: "wellTypedProvider T (Some f)" if "\<not> isInterface T"
    proof -
      from that have "getTypeKey T = Some T"
        by (simp add: getTypeKey_eq_Some_iff)
      with p assms f show ?thesis
        by (auto dest: wellKeyed_lazyD)
    qed
    then have typed: "hasType T (fst (f w))" if "\<not> isInterface T"
      using that by (simp add: wellTypedProvider_def)
    from assms typed wp f have "wellKeyed sl'"
      unfolding sl' by (auto simp: wellKeyed_def getTypeKey_Some_iffs)
    with g show ?thesis by simp
  qed
qed

lemma wellKeyed_step:
  "wellKeyed (fst s) \<Longrightarrow> wellTypedOp x \<Longrightarrow> wellKeyed (fst (step x s))"
  by (cases x; cases s)
     (simp_all add: wellKeyed_RegisterSingleton wellKeyed_RegisterLazySingleton
        wellKeyed_RegisterFactory wellKeyed_Get)

lemma wellKeyed_run:
  "wellKeyed (fst s) \<Longrightarrow> list_all wellTypedOp xs \<Longrightarrow> wellKeyed (fst (run xs s))"
  by (induction xs arbitrary: s) (simp_all add: wellKeyed_step)

section \<open>The cast on the instance path and the type key\<close>

text \<open>
  In a locator built from \<open>New\<close> by calls the compiler accepts, an instance found under
  the key of a non-interface type \<open>T\<close> is a \<open>T\<close>: there the cast succeeds and \<open>Get\<close>
  hands the stored value back unchanged.
\<close>

lemma Get_instance_safe_on_concrete:
  assumes "list_all wellTypedOp xs" and "\<not> isInterface T"
    and "instances (fst (run xs (New, w0))) (getTypeKey T) = Some v"
  shows "Get T (fst (run xs (New, w0))) w = (Inr v, fst (run xs (New, w0)), w)"
proof -
  let ?sl = "fst (run xs (New, w0))"
  have "wellKeyed ?sl"
    using assms(1) by (simp add: wellKeyed_run wellKeyed_New)
  moreover from assms(2) have k: "getTypeKey T = Some T"
    by (simp add: getTypeKey_eq_Some_iff)
  ultimately have "hasType T v"
    using assms(3) by (auto dest: wellKeyed_instanceD)
  moreover from this assms(2) have "v \<noteq> NilValue"
    by (cases T) auto
  ultimately have "typeAssert T v = Some v"
    by (rule typeAssert_hasType)
  with assms(3) show ?thesis
    by (simp add: Get_instance)
qed

text \<open>
  C1: whenever \<open>Get\<close> finds the key of \<open>T\<close> in the instances map, the stored value is a
  \<open>T\<close> and the cast cannot fail. The code breaks this for interface types. After
  \<^verbatim>\<open>RegisterSingleton[fmt.Stringer](sl, clock)\<close>, where \<^verbatim>\<open>*main.Clock\<close> has a method
  \<^verbatim>\<open>String\<close> and no method \<^verbatim>\<open>Read\<close>, the instances map holds the clock under the key
  of \<^verbatim>\<open>io.Reader\<close> as well, and \<^verbatim>\<open>Get[io.Reader](sl)\<close> panics in the cast.
\<close>

theorem Get_instance_cast_panics:
  "hasType fmtStringer (Boxed clock (PtrV (Some 1))) \<and>
   instances
       (RegisterSingleton fmtStringer (New :: heap ServiceLocator) (Boxed clock (PtrV (Some 1))))
       (getTypeKey ioReader) = Some (Boxed clock (PtrV (Some 1))) \<and>
   fst (Get ioReader
          (RegisterSingleton fmtStringer New (Boxed clock (PtrV (Some 1)))) ([] :: heap)) =
     Inl PanicInterfaceConversion"
  by (simp add: locator_defs example_defs)

text \<open>
  C2: two distinct type parameters must give unequal keys, interface types included.
  The code takes \<^verbatim>\<open>reflect.TypeOf\<close> of the zero value, which is nil for every interface
  type: \<^verbatim>\<open>io.Reader\<close> and \<^verbatim>\<open>fmt.Stringer\<close> are distinct types with the same key.
  (\<open>getTypeKey_eq_iff\<close> above is the part that holds: the key of a non-interface type
  is the key of no other type.)
\<close>

theorem getTypeKey_interface_collision:
  "ioReader \<noteq> fmtStringer \<and> getTypeKey ioReader = getTypeKey fmtStringer"
  by (simp add: ioReader_def fmtStringer_def getTypeKey_def)

section \<open>The two failures of \<open>Get\<close>\<close>

text \<open>
  The claim C3 as it is written asks for two distinguishable errors. On the code the
  error for a lazy singleton registered with a nil constructor is the very error of a
  type that was never registered, as the test of the nil provider expects.
\<close>

theorem absent_constructor_error_not_distinct:
  "fst (Get testService (RegisterLazySingleton testService New None) ([] :: heap)) =
   fst (Get testService New ([] :: heap))"
  by (simp add: locator_defs example_defs)

text \<open>
  C3, amended: where no instance is stored under the key of \<open>T\<close>, \<open>Get\<close> fails with the
  error \<^verbatim>\<open>no provider registered for type ...\<close> both when no provider is stored under
  the key and when the provider is a lazy singleton registered with a nil constructor.
  It is one and the same error in both cases, and with the nil constructor every call
  fails with it, the first and all later ones, leaving locator and world untouched.
\<close>

theorem Get_failure_modes:
  assumes "instances sl (getTypeKey T) = None"
  shows "(providers sl (getTypeKey T) = None \<longrightarrow>
            Get T sl w = (Inl (noProviderError (zeroValue T)), sl, w)) \<and>
         GetN T n (RegisterLazySingleton T sl None) w =
           (replicate n (Inl (noProviderError (zeroValue T))),
            RegisterLazySingleton T sl None, w)"
proof -
  let ?sl = "RegisterLazySingleton T sl None"
  have "Get T ?sl w = (Inl (noProviderError (zeroValue T)), ?sl, w)"
    using assms Get_lazy_absent [of ?sl T _ w]
    by (simp add: RegisterLazySingleton_def)
  then have "GetN T n ?sl w = (replicate n (Inl (noProviderError (zeroValue T))), ?sl, w)"
    by (rule GetN_error)
  with assms show ?thesis
    by (simp add: Get_missing)
qed

theorem Get_failure_modes_witness:
  "instances (New :: heap ServiceLocator) (getTypeKey testService) = None \<and>
   providers (New :: heap ServiceLocator) (getTypeKey testService) = None \<and>
   Get testService New ([] :: heap) =
     (Inl (ErrorString ''no provider registered for type *locator_test.TestService''), New, []) \<and>
   fst (GetN testService 3 (RegisterLazySingleton testService New None) ([] :: heap)) =
     replicate 3 (Inl (ErrorString ''no provider registered for type *locator_test.TestService''))"
proof -
  have h: "instances (New :: heap ServiceLocator) (getTypeKey testService) = None"
    by (simp add: New_def)
  have p: "providers (New :: heap ServiceLocator) (getTypeKey testService) = None"
    by (simp add: New_def)
  have z: "noProviderError (zeroValue testService) =
      ErrorString ''no provider registered for type *locator_test.TestService''"
    by (simp add: noProviderError_def testService_def)
  from Get_failure_modes [OF h, of "[]" 3] p z h show ?thesis
    by simp
qed

section \<open>Lazy singletons\<close>

text \<open>
  The claim C4 as it is written speaks of every registration of a lazy singleton. A
  singleton registered for the same type beforehand shadows it: three calls of \<open>Get\<close>
  return the singleton, the heap stays empty, the constructor never runs.
\<close>

theorem lazy_singleton_shadowed_by_earlier_singleton:
  "GetN testService 3
     (RegisterLazySingleton testService
        (RegisterSingleton testService New (Boxed testService (PtrV (Some 7))))
        (Some (newTestService ''LazySingleton'')))
     [] =
   (replicate 3 (Inr (Boxed testService (PtrV (Some 7)))),
    RegisterLazySingleton testService
        (RegisterSingleton testService New (Boxed testService (PtrV (Some 7))))
        (Some (newTestService ''LazySingleton'')),
    [])"
  by (simp add: GetN_instance RegisterLazySingleton_def RegisterSingleton_def testService_def)

text \<open>
  C4, amended: let a lazy singleton be registered for \<open>T\<close> with a constructor \<open>ctor\<close> on a
  locator that holds no instance under the key of \<open>T\<close>, and let the value \<open>ctor\<close>
  produces in the world \<open>w\<close> of the first retrieval be a non-nil \<open>T\<close>. Then
  \<^item> the registration creates no instance (it does not even receive the world the
    constructor would run in);
  \<^item> \<open>n + 1\<close> calls of \<open>Get\<close> all return that one value, and the world after them is the
    world after one run of \<open>ctor\<close>: the constructor ran exactly once, in the first call;
  \<^item> after the first call the value is in the instances map, and from then on \<open>Get\<close>
    returns it and changes nothing whatever the providers map holds.
\<close>

theorem lazy_singleton_constructed_once:
  assumes fresh: "instances sl (getTypeKey T) = None"
    and typed: "hasType T (fst (ctor w))" and nonnil: "fst (ctor w) \<noteq> NilValue"
  shows "instances (RegisterLazySingleton T sl (Some ctor)) = instances sl \<and>
         GetN T (Suc n) (RegisterLazySingleton T sl (Some ctor)) w =
           (replicate (Suc n) (Inr (fst (ctor w))),
            materialized T sl ctor (fst (ctor w)), snd (ctor w)) \<and>
         instances (materialized T sl ctor (fst (ctor w))) (getTypeKey T) = Some (fst (ctor w)) \<and>
         (\<forall>P w'. Get T (materialized T sl ctor (fst (ctor w))\<lparr>providers := P\<rparr>) w' =
            (Inr (fst (ctor w)), materialized T sl ctor (fst (ctor w))\<lparr>providers := P\<rparr>, w'))"
proof -
  let ?v = "fst (ctor w)"
  let ?m = "materialized T sl ctor ?v"
  have cast: "typeAssert T ?v = Some ?v"
    using typed nonnil by (rule typeAssert_hasType)
  have stored: "instances ?m (getTypeKey T) = Some ?v"
    by (simp add: materialized_def)
  have first: "Get T (RegisterLazySingleton T sl (Some ctor)) w = (Inr ?v, ?m, snd (ctor w))"
    using fresh by (rule Get_lazy_registered)
  have rest: "GetN T n ?m (snd (ctor w)) = (replicate n (Inr ?v), ?m, snd (ctor w))"
    using stored cast by (rule GetN_instance)
  have direct: "Get T (?m\<lparr>providers := P\<rparr>) w' = (Inr ?v, ?m\<lparr>providers := P\<rparr>, w')" for P w'
    using cast Get_instance [of "?m\<lparr>providers := P\<rparr>" T ?v w']
    by (simp add: materialized_def)
  show ?thesis
    using first rest stored direct
    by (simp add: RegisterLazySingleton_def)
qed

theorem lazy_singleton_constructed_once_witness:
  "instances (New :: heap ServiceLocator) (getTypeKey testService) = None \<and>
   hasType testService (fst (newTestService ''LazySingleton'' [])) \<and>
   fst (newTestService ''LazySingleton'' []) \<noteq> NilValue \<and>
   fst (GetN testService 3
      (RegisterLazySingleton testService New (Some (newTestService ''LazySingleton''))) []) =
     replicate 3 (Inr (Boxed testService (PtrV (Some 0)))) \<and>
   snd (snd (GetN testService 3
      (RegisterLazySingleton testService New (Some (newTestService ''LazySingleton''))) [])) =
     [StructV [StrV ''LazySingleton'']]"
proof -
  have fresh: "instances (New :: heap ServiceLocator) (getTypeKey testService) = None"
    by (simp add: New_def)
  have typed: "hasType testService (fst (newTestService ''LazySingleton'' []))"
    by (simp add: newTestService_def testService_def)
  have nonnil: "fst (newTestService ''LazySingleton'' []) \<noteq> NilValue"
    by (simp add: newTestService_def)
  from lazy_singleton_constructed_once
         [where sl = "New :: heap ServiceLocator" and T = testService
            and ctor = "newTestService ''LazySingleton''" and w = "[]" and n = 2,
          OF fresh typed nonnil]
       fresh typed nonnil
  show ?thesis
    by (simp add: newTestService_def numeral_3_eq_3)
qed

section \<open>Singletons\<close>

text \<open>
  For a non-interface type the singleton stays: after \<open>RegisterSingleton\<close> for \<open>T\<close>, and
  after any further calls among which none registers a singleton for \<open>T\<close> again, \<open>Get\<close>
  returns the registered value.
\<close>

lemma singleton_kept_on_concrete:
  assumes "\<not> isInterface T" and "hasType T v"
    and "list_all (\<lambda>x. \<not> (isRegisterSingleton x \<and> opType x = T)) xs"
  shows "Get T (fst (run xs (RegisterSingleton T sl v, w))) w' =
           (Inr v, fst (run xs (RegisterSingleton T sl v, w)), w')"
proof -
  let ?sl = "fst (run xs (RegisterSingleton T sl v, w))"
  have "list_all (\<lambda>x. \<not> (isRegisterSingleton x \<and> getTypeKey (opType x) = getTypeKey T)) xs"
    using assms(1,3) by (simp add: list_all_iff getTypeKey_eq_iff)
  moreover have "instances (fst (RegisterSingleton T sl v, w)) (getTypeKey T) = Some v"
    by (simp add: RegisterSingleton_def)
  ultimately have "instances ?sl (getTypeKey T) = Some v"
    by (rule run_instance_kept [rotated])
  moreover have "typeAssert T v = Some v"
    using assms(1,2) by (cases T; cases v) auto
  ultimately show ?thesis
    by (simp add: Get_instance)
qed

text \<open>
  C5: after \<open>RegisterSingleton(v)\<close> for \<open>T\<close> and no further registration for \<open>T\<close>, every
  \<open>Get\<close> for \<open>T\<close> succeeds and returns \<open>v\<close>. The code breaks this for interface types:
  a file registered as the \<^verbatim>\<open>io.Reader\<close> is returned by \<open>Get\<close> at first, and once a clock
  has been registered as the \<^verbatim>\<open>fmt.Stringer\<close>, which is no registration for
  \<^verbatim>\<open>io.Reader\<close>, \<^verbatim>\<open>Get[io.Reader]\<close> finds the clock under its key and panics.
\<close>

theorem singleton_overwritten_by_other_interface:
  "hasType ioReader (Boxed osFile (PtrV (Some 1))) \<and>
   hasType fmtStringer (Boxed clock (PtrV (Some 2))) \<and>
   fst (Get ioReader
      (RegisterSingleton ioReader New (Boxed osFile (PtrV (Some 1)))) ([] :: heap)) =
     Inr (Boxed osFile (PtrV (Some 1))) \<and>
   fst (Get ioReader
      (RegisterSingleton fmtStringer
         (RegisterSingleton ioReader New (Boxed osFile (PtrV (Some 1))))
         (Boxed clock (PtrV (Some 2)))) ([] :: heap)) =
     Inl PanicInterfaceConversion"
  by (simp add: locator_defs example_defs)

section \<open>Factories\<close>

text \<open>
  The claim C6 as it is written speaks of every \<open>Get\<close> after \<open>RegisterFactory\<close>. A
  singleton registered for the same type beforehand shadows the factory: two calls of
  \<open>Get\<close> return the same singleton, and the constructor never runs.
\<close>

theorem factory_shadowed_by_earlier_singleton:
  "GetN testService 2
     (RegisterFactory testService
        (RegisterSingleton testService New (Boxed testService (PtrV (Some 7))))
        (Some (newTestService ''Factory'')))
     [] =
   ([Inr (Boxed testService (PtrV (Some 7))), Inr (Boxed testService (PtrV (Some 7)))],
    RegisterFactory testService
        (RegisterSingleton testService New (Boxed testService (PtrV (Some 7))))
        (Some (newTestService ''Factory'')),
    [])"
proof -
  let ?v = "Boxed testService (PtrV (Some 7))"
  let ?sl = "RegisterFactory testService (RegisterSingleton testService New ?v)
               (Some (newTestService ''Factory''))"
  have i: "instances ?sl (getTypeKey testService) = Some ?v"
    by (simp add: RegisterFactory_def RegisterSingleton_def)
  have c: "typeAssert testService ?v = Some ?v"
    by (simp add: testService_def)
  from GetN_instance [OF i c, of 2 "[]"] show ?thesis
    by (simp add: numeral_2_eq_2 del: GetN.simps)
qed

text \<open>
  C6, amended: after \<open>RegisterFactory\<close> for \<open>T\<close> with a constructor \<open>ctor\<close> on a locator
  that holds no instance under the key of \<open>T\<close>, every \<open>Get\<close> for \<open>T\<close> runs \<open>ctor\<close> once
  in the current world and returns what that run produced; the locator is left as it
  was, so nothing is cached and the instances map is never written. Two calls in a row
  return the products of two runs in a row, which are distinct whenever the constructor
  makes a new instance at each run.
\<close>

theorem factory_never_cached:
  assumes "instances sl (getTypeKey T) = None"
  shows "Get T (RegisterFactory T sl (Some ctor)) w =
           (Inr (fst (ctor w)), RegisterFactory T sl (Some ctor), snd (ctor w)) \<and>
         GetN T 2 (RegisterFactory T sl (Some ctor)) w =
           ([Inr (fst (ctor w)), Inr (fst (ctor (snd (ctor w))))],
            RegisterFactory T sl (Some ctor), snd (ctor (snd (ctor w)))) \<and>
         instances (RegisterFactory T sl (Some ctor)) = instances sl \<and>
         (fst (ctor w) \<noteq> fst (ctor (snd (ctor w))) \<longrightarrow>
            fst (GetN T 2 (RegisterFactory T sl (Some ctor)) w) ! 0 \<noteq>
            fst (GetN T 2 (RegisterFactory T sl (Some ctor)) w) ! 1)"
proof -
  let ?sl = "RegisterFactory T sl (Some ctor)"
  have i: "instances ?sl (getTypeKey T) = None"
    using assms by (simp add: RegisterFactory_def)
  have p: "providers ?sl (getTypeKey T) = Some (ProviderFunc T (Some ctor))"
    by (simp add: RegisterFactory_def)
  have one: "Get T ?sl w' = (Inr (fst (ctor w')), ?sl, snd (ctor w'))" for w'
    using i p by (rule Get_factory)
  have "GetN T (Suc (Suc 0)) ?sl w =
      ([Inr (fst (ctor w)), Inr (fst (ctor (snd (ctor w))))], ?sl, snd (ctor (snd (ctor w))))"
    by (simp add: one)
  then have two: "GetN T 2 ?sl w =
      ([Inr (fst (ctor w)), Inr (fst (ctor (snd (ctor w))))], ?sl, snd (ctor (snd (ctor w))))"
    by (simp only: numeral_2_eq_2)
  have "instances ?sl = instances sl"
    by (simp add: RegisterFactory_def)
  with one [of w] two show ?thesis
    by simp
qed

theorem factory_never_cached_witness:
  "instances (New :: heap ServiceLocator) (getTypeKey testService) = None \<and>
   GetN testService 2 (RegisterFactory testService New (Some (newTestService ''Factory''))) [] =
     ([Inr (Boxed testService (PtrV (Some 0))), Inr (Boxed testService (PtrV (Some 1)))],
      RegisterFactory testService New (Some (newTestService ''Factory'')),
      [StructV [StrV ''Factory''], StructV [StrV ''Factory'']]) \<and>
   Boxed testService (PtrV (Some 0)) \<noteq> Boxed testService (PtrV (Some 1))"
proof -
  have fresh: "instances (New :: heap ServiceLocator) (getTypeKey testService) = None"
    by (simp add: New_def)
  from factory_never_cached [OF fresh, of "newTestService ''Factory''" "[]"] fresh
  show ?thesis
    by (simp add: newTestService_def)
qed

section \<open>Types that were never registered\<close>

text \<open>
  For a non-interface type \<open>T\<close> with nothing stored under its key, \<open>Get\<close> fails with
  an error whose message ends in the name of \<open>T\<close>, also after any calls at other types.
\<close>

lemma missing_concrete_type_named:
  assumes "\<not> isInterface T"
    and "instances sl (getTypeKey T) = None" and "providers sl (getTypeKey T) = None"
    and "list_all (\<lambda>x. opType x \<noteq> T) xs"
  shows "Get T (fst (run xs (sl, w))) w' =
           (Inl (ErrorString (''no provider registered for type '' @ typeString T)),
            fst (run xs (sl, w)), w')"
proof -
  let ?sl = "fst (run xs (sl, w))"
  have "list_all (\<lambda>x. getTypeKey (opType x) \<noteq> getTypeKey T) xs"
    using assms(1,4) by (simp add: list_all_iff getTypeKey_eq_iff)
  then have "instances ?sl (getTypeKey T) = instances sl (getTypeKey T) \<and>
             providers ?sl (getTypeKey T) = providers sl (getTypeKey T)"
    using run_other_key [of "getTypeKey T" xs "(sl, w)"] by simp
  with assms(2,3) have "Get T ?sl w' = (Inl (noProviderError (zeroValue T)), ?sl, w')"
    by (simp add: Get_missing)
  moreover have "noProviderError (zeroValue T) =
      ErrorString (''no provider registered for type '' @ typeString T)"
    using assms(1) by (cases T) (simp_all add: noProviderError_def)
  ultimately show ?thesis
    by simp
qed

text \<open>
  C7: \<open>Get\<close> for a type that was never registered fails with an error that names the
  requested type, and registering an unrelated type does not change that. The code
  breaks both for interface types: on the empty locator the error for \<^verbatim>\<open>io.Reader\<close>
  reads \<^verbatim>\<open>no provider registered for type <nil>\<close>, the same as for \<^verbatim>\<open>fmt.Stringer\<close>,
  and after a clock has been registered as the \<^verbatim>\<open>fmt.Stringer\<close> the call
  \<^verbatim>\<open>Get[io.Reader]\<close> no longer returns that error: it panics.
\<close>

theorem missing_interface_type_not_named:
  "fst (Get ioReader New ([] :: heap)) =
     Inl (ErrorString ''no provider registered for type <nil>'') \<and>
   fst (Get fmtStringer New ([] :: heap)) = fst (Get ioReader New ([] :: heap)) \<and>
   hasType fmtStringer (Boxed clock (PtrV (Some 2))) \<and>
   fst (Get ioReader
      (RegisterSingleton fmtStringer New (Boxed clock (PtrV (Some 2)))) ([] :: heap)) =
     Inl PanicInterfaceConversion"
  by (simp add: locator_defs example_defs)

section \<open>Shadowing\<close>

text \<open>
  C8: \<open>RegisterSingleton\<close> for \<open>T\<close> leaves the providers map as it is and writes the
  instances map at the key of \<open>T\<close> only. A provider stored for \<open>T\<close> stays where it is
  and is shadowed: the following \<open>Get\<close> for \<open>T\<close> is decided by the cast of the new
  instance alone, runs no provider (the world is unchanged) and changes nothing in the
  locator; it returns the instance whenever that is a non-nil \<open>T\<close>.
\<close>

theorem RegisterSingleton_keeps_providers:
  "providers (RegisterSingleton T sl v) = providers sl \<and>
   instances (RegisterSingleton T sl v) = (instances sl)(getTypeKey T \<mapsto> v) \<and>
   Get T (RegisterSingleton T sl v) w =
     (case typeAssert T v of Some x \<Rightarrow> Inr x | None \<Rightarrow> Inl PanicInterfaceConversion,
      RegisterSingleton T sl v, w) \<and>
   (hasType T v \<and> v \<noteq> NilValue \<longrightarrow> fst (Get T (RegisterSingleton T sl v) w) = Inr v)"
proof -
  have "instances (RegisterSingleton T sl v) (getTypeKey T) = Some v"
    by (simp add: RegisterSingleton_def)
  then have "Get T (RegisterSingleton T sl v) w =
     (case typeAssert T v of Some x \<Rightarrow> Inr x | None \<Rightarrow> Inl PanicInterfaceConversion,
      RegisterSingleton T sl v, w)"
    by (rule Get_instance)
  then show ?thesis
    by (simp add: RegisterSingleton_def typeAssert_hasType)
qed

theorem RegisterSingleton_keeps_providers_witness:
  "hasType testService (Boxed testService (PtrV (Some 7))) \<and>
   providers (RegisterSingleton testService
       (RegisterFactory testService New (Some (newTestService ''Factory'')))
       (Boxed testService (PtrV (Some 7)))) (getTypeKey testService) =
     Some (ProviderFunc testService (Some (newTestService ''Factory''))) \<and>
   Get testService (RegisterSingleton testService
       (RegisterFactory testService New (Some (newTestService ''Factory'')))
       (Boxed testService (PtrV (Some 7)))) [] =
     (Inr (Boxed testService (PtrV (Some 7))),
      RegisterSingleton testService
       (RegisterFactory testService New (Some (newTestService ''Factory'')))
       (Boxed testService (PtrV (Some 7))), [])"
  using RegisterSingleton_keeps_providers
     [of testService "RegisterFactory testService New (Some (newTestService ''Factory''))"
         "Boxed testService (PtrV (Some 7))" "[]"]
  by (simp add: RegisterFactory_def testService_def)

text \<open>
  An instance that the cast accepts shadows every provider registered later: after any
  calls other than \<open>RegisterSingleton\<close>, at any types, \<open>Get\<close> still returns it.
\<close>

lemma materialized_value_shadows:
  assumes "instances sl (getTypeKey T) = Some v" and "typeAssert T v = Some v"
    and "list_all (\<lambda>x. \<not> isRegisterSingleton x) xs"
  shows "Get T (fst (run xs (sl, w))) w' = (Inr v, fst (run xs (sl, w)), w')"
proof -
  have "list_all (\<lambda>x. \<not> (isRegisterSingleton x \<and> getTypeKey (opType x) = getTypeKey T)) xs"
    using assms(3) by (auto simp: list_all_iff)
  with assms(1) have "instances (fst (run xs (sl, w))) (getTypeKey T) = Some v"
    using run_instance_kept [of "(sl, w)" "getTypeKey T" v xs] by simp
  with assms(2) show ?thesis
    by (simp add: Get_instance)
qed

text \<open>
  C9: once a lazy singleton for \<open>T\<close> has produced its value, every later \<open>Get\<close> for \<open>T\<close>
  returns that value, whatever lazy singleton or factory is registered for \<open>T\<close>
  afterwards. The code breaks this when \<open>T\<close> is an interface type and the value is
  the nil interface: the first \<^verbatim>\<open>Get[error]\<close> returns nil and stores it, and the next
  one, here after a factory has been registered, panics in the cast of the stored nil.
\<close>

theorem materialized_nil_panics:
  "fst (Get errorType (RegisterLazySingleton errorType New (Some nilError)) []) = Inr NilValue \<and>
   instances (fst (snd (Get errorType (RegisterLazySingleton errorType New (Some nilError)) [])))
      (getTypeKey errorType) = Some NilValue \<and>
   fst (Get errorType
         (RegisterFactory errorType
            (fst (snd (Get errorType (RegisterLazySingleton errorType New (Some nilError)) [])))
            (Some nilError)) []) = Inl PanicInterfaceConversion"
  by (simp add: locator_defs example_defs)

section \<open>A failing \<open>Get\<close> changes nothing\<close>

text \<open>
  C10: when \<open>Get\<close> returns an error, whichever of the two, neither map of the locator
  has changed (nor has the world), so the call can be repeated any number of times
  with the same outcome.
\<close>

theorem Get_error_leaves_registry:
  assumes "fst (Get T sl w) = Inl (ErrorString m)"
  shows "Get T sl w = (Inl (ErrorString m), sl, w) \<and>
         GetN T n sl w = (replicate n (Inl (ErrorString m)), sl, w)"
proof -
  obtain r sl' w' where g: "Get T sl w = (r, sl', w')"
    by (cases "Get T sl w") auto
  with assms have r: "r = Inl (ErrorString m)"
    by simp
  from g r have "sl' = sl \<and> w' = w"
    by (auto simp: Get_def getInstance_def Let_def map_upd_triv
             split: option.splits providerEntry.splits if_splits prod.splits)
  with g r have same: "Get T sl w = (Inl (ErrorString m), sl, w)"
    by simp
  then have "GetN T n sl w = (replicate n (Inl (ErrorString m)), sl, w)"
    by (rule GetN_error)
  with same show ?thesis
    by simp
qed

theorem Get_error_leaves_registry_witness:
  "fst (Get testService (RegisterLazySingleton testService New None) ([] :: heap)) =
     Inl (ErrorString ''no provider registered for type *locator_test.TestService'') \<and>
   Get testService (RegisterLazySingleton testService New None) ([] :: heap) =
     (Inl (ErrorString ''no provider registered for type *locator_test.TestService''),
      RegisterLazySingleton testService New None, []) \<and>
   GetN testService 2 (RegisterLazySingleton testService New None) ([] :: heap) =
     (replicate 2 (Inl (ErrorString ''no provider registered for type *locator_test.TestService'')),
      RegisterLazySingleton testService New None, [])"
proof -
  have e: "fst (Get testService (RegisterLazySingleton testService New None) ([] :: heap)) =
     Inl (ErrorString ''no provider registered for type *locator_test.TestService'')"
    by (simp add: locator_defs example_defs)
  from Get_error_leaves_registry [OF e, of 2] e show ?thesis
    by simp
qed

end
